theory Spec2Isabelle
  imports Main "HOL-Library.Sublist"
begin

section \<open>Python strings and paths\<close>

text \<open>
  A Python \<^verbatim>\<open>str\<close> is modelled as a \<^typ>\<open>string\<close>. \<^verbatim>\<open>str.upper\<close> maps the letters
  \<^verbatim>\<open>a\<close> .. \<^verbatim>\<open>z\<close> to \<^verbatim>\<open>A\<close> .. \<^verbatim>\<open>Z\<close> and leaves every other character of the
  model alone (no character outside ASCII is turned into one of the letters M, E, O, G
  by \<^verbatim>\<open>str.upper\<close>, which are the only ones the program looks for).
\<close>

definition upper_char :: "char \<Rightarrow> char" where
  "upper_char c =
     (case map_of (zip ''abcdefghijklmnopqrstuvwxyz'' ''ABCDEFGHIJKLMNOPQRSTUVWXYZ'') c of
        Some u \<Rightarrow> u
      | None \<Rightarrow> c)"

definition upper :: "string \<Rightarrow> string" where
  "upper s = map upper_char s"

text \<open>\<^verbatim>\<open>sub in s\<close> on strings: some suffix of \<open>s\<close> starts with \<open>sub\<close>.\<close>

fun starts_with :: "string \<Rightarrow> string \<Rightarrow> bool" where
  "starts_with [] s = True"
| "starts_with (a # as) [] = False"
| "starts_with (a # as) (c # cs) = (a = c \<and> starts_with as cs)"

fun ends_with :: "string \<Rightarrow> string \<Rightarrow> bool" where
  "ends_with suf s = starts_with (rev suf) (rev s)"

fun str_in :: "string \<Rightarrow> string \<Rightarrow> bool" where
  "str_in sub [] = (sub = [])"
| "str_in sub (c # cs) = (starts_with sub (c # cs) \<or> str_in sub cs)"

text \<open>\<^verbatim>\<open>os.path.basename\<close> and \<^verbatim>\<open>os.path.join\<close> of \<^verbatim>\<open>posixpath\<close>.\<close>

definition basename :: "string \<Rightarrow> string" where
  "basename p = rev (takeWhile (\<lambda>c. c \<noteq> CHR ''/'') (rev p))"

definition path_join :: "string \<Rightarrow> string \<Rightarrow> string" where
  "path_join a b =
     (if starts_with ''/'' b then b
      else if a = [] \<or> ends_with ''/'' a then a @ b
      else a @ ''/'' @ b)"

text \<open>\<^verbatim>\<open>str(n)\<close> of a natural number.\<close>

definition digit_char :: "nat \<Rightarrow> char" where
  "digit_char d = ''0123456789'' ! d"

fun str_nat :: "nat \<Rightarrow> string" where
  "str_nat n = (if n < 10 then [digit_char n] else str_nat (n div 10) @ [digit_char (n mod 10)])"

declare str_nat.simps [simp del]

text \<open>Truth value of an optional string: \<^verbatim>\<open>None\<close> and \<^verbatim>\<open>""\<close> are false.\<close>

fun truthy :: "string option \<Rightarrow> bool" where
  "truthy None = False"
| "truthy (Some s) = (s \<noteq> [])"

section \<open>JSON values\<close>

text \<open>
  The dictionaries, lists and strings the program builds. A dictionary keeps its
  insertion order, so it is an association list.
\<close>

datatype json = JStr string | JList "json list" | JObj "(string \<times> json) list"

text \<open>
  The text \<^verbatim>\<open>json.dumps\<close> returns for a value is not spelled out: a piece of text is
  either given character by character, or it is the text \<^verbatim>\<open>json.dumps\<close> returns for a
  value. The command line of a subprocess is a list of such pieces, one for each
  argument, and the content written to a file is the list of the pieces written, in
  order.
\<close>

datatype chunk = Chars string | Dumps json

section \<open>The two extraction schemas and the request record\<close>

abbreviation ty :: "string \<Rightarrow> json" where
  "ty t \<equiv> JObj [(''type'', JStr t)]"

abbreviation obj :: "(string \<times> json) list \<Rightarrow> json" where
  "obj props \<equiv> JObj [(''type'', JStr ''OBJECT''), (''properties'', JObj props)]"

abbreviation arr :: "json \<Rightarrow> json" where
  "arr items \<equiv> JObj [(''type'', JStr ''ARRAY''), (''items'', items)]"

definition qp_schema :: json where
  "qp_schema =
     obj [(''subject'', ty ''STRING''),
          (''year'', ty ''INTEGER''),
          (''session'', ty ''STRING''),
          (''total_marks'', ty ''INTEGER''),
          (''groups'', arr (obj
             [(''group_id'', ty ''STRING''),
              (''title'', ty ''STRING''),
              (''questions'', arr (obj
                 [(''id'', ty ''STRING''),
                  (''text'', ty ''STRING''),
                  (''marks'', ty ''INTEGER''),
                  (''options'', arr (obj
                     [(''label'', ty ''STRING''), (''text'', ty ''STRING'')]))]))]))]"

definition memo_schema :: json where
  "memo_schema =
     obj [(''meta'', obj
             [(''subject'', ty ''STRING''),
              (''year'', ty ''INTEGER''),
              (''session'', ty ''STRING''),
              (''paper'', ty ''STRING''),
              (''total_marks'', ty ''INTEGER'')]),
          (''sections'', arr (obj
             [(''section_id'', ty ''STRING''),
              (''questions'', arr (obj
                 [(''id'', ty ''STRING''),
                  (''model_answers'', arr (ty ''STRING'')),
                  (''answers'', arr (obj
                     [(''sub_id'', ty ''STRING''),
                      (''value'', ty ''STRING''),
                      (''marks'', ty ''INTEGER'')])),
                  (''marks'', ty ''INTEGER''),
                  (''marker_instruction'', ty ''STRING'')]))]))]"

text \<open>Lines 138 to 157 of \<^verbatim>\<open>prepare_batch.py\<close>: the body of the loop after a successful upload.\<close>

definition is_memo :: "string \<Rightarrow> bool" where
  "is_memo filename = (str_in ''MEMO'' (upper filename) \<or> str_in ''MG'' (upper filename))"

definition select_prompt :: "string \<Rightarrow> string" where
  "select_prompt filename =
     (if \<not> is_memo filename then ''Extract the full exam paper structure.''
      else ''Extract the marking guidelines.'')"

definition select_schema :: "string \<Rightarrow> json" where
  "select_schema filename = (if is_memo filename then memo_schema else qp_schema)"

definition build_request :: "string \<Rightarrow> string \<Rightarrow> json" where
  "build_request pdf_path file_uri =
     (let filename = basename pdf_path;
          prompt = select_prompt filename;
          schema = select_schema filename
      in JObj
        [(''custom_id'', JStr filename),
         (''request'', JObj
            [(''contents'', JList
                [JObj [(''role'', JStr ''user''),
                       (''parts'', JList
                          [JObj [(''text'', JStr prompt)],
                           JObj [(''file_data'', JObj
                              [(''mime_type'', JStr ''application/pdf''),
                               (''file_uri'', JStr file_uri)])]])]]),
             (''generation_config'', JObj
                [(''response_mime_type'', JStr ''application/json''),
                 (''response_schema'', schema)])])])"

text \<open>Reading a record back: \<^verbatim>\<open>d[k]\<close> on a dictionary and \<^verbatim>\<open>l[i]\<close> on a list.\<close>

fun jget :: "string \<Rightarrow> json \<Rightarrow> json option" where
  "jget k (JObj kvs) = map_of kvs k"
| "jget k _ = None"

fun jnth :: "nat \<Rightarrow> json \<Rightarrow> json option" where
  "jnth i (JList xs) = (if i < length xs then Some (xs ! i) else None)"
| "jnth i _ = None"

definition custom_id :: "json \<Rightarrow> json option" where
  "custom_id r = jget ''custom_id'' r"

definition record_schema :: "json \<Rightarrow> json option" where
  "record_schema r =
     Option.bind (Option.bind (jget ''request'' r) (jget ''generation_config''))
       (jget ''response_schema'')"

definition record_parts :: "json \<Rightarrow> json option" where
  "record_parts r =
     Option.bind (Option.bind (Option.bind (jget ''request'' r) (jget ''contents'')) (jnth 0))
       (jget ''parts'')"

definition record_prompt :: "json \<Rightarrow> json option" where
  "record_prompt r = Option.bind (Option.bind (record_parts r) (jnth 0)) (jget ''text'')"

definition record_file_uri :: "json \<Rightarrow> json option" where
  "record_file_uri r =
     Option.bind (Option.bind (Option.bind (record_parts r) (jnth 1)) (jget ''file_data''))
       (jget ''file_uri'')"

section \<open>The world outside the program\<close>

text \<open>
  Exceptions are values. \<open>Exn c m\<close> is an instance, with message \<open>m\<close>, of a class \<open>c\<close>
  derived from \<^verbatim>\<open>Exception\<close>. \<^verbatim>\<open>KeyboardInterrupt\<close> and \<^verbatim>\<open>SystemExit\<close> derive from
  \<^verbatim>\<open>BaseException\<close> and not from \<^verbatim>\<open>Exception\<close>: a handler \<^verbatim>\<open>except Exception\<close> does not
  catch them.
\<close>

datatype exn = Exn (exn_class: string) (exn_msg: string) | KeyboardInterrupt | SystemExit nat

text \<open>\<^verbatim>\<open>isinstance(e, Exception)\<close>: what \<^verbatim>\<open>except Exception\<close> catches.\<close>

fun is_exception :: "exn \<Rightarrow> bool" where
  "is_exception (Exn c m) = True"
| "is_exception KeyboardInterrupt = False"
| "is_exception (SystemExit code) = False"

text \<open>
  The exit status of the process when an exception leaves the script: 1 after the
  traceback of an \<^verbatim>\<open>Exception\<close>, the low byte of the code of a \<^verbatim>\<open>SystemExit\<close>, and the
  status a shell reports for a process ended by the interrupt signal.
\<close>

fun uncaught_status :: "exn \<Rightarrow> nat" where
  "uncaught_status (Exn c m) = 1"
| "uncaught_status KeyboardInterrupt = 130"
| "uncaught_status (SystemExit code) = code mod 256"

text \<open>The state enumeration of a remote file and its \<^verbatim>\<open>.name\<close>.\<close>

datatype file_state = STATE_UNSPECIFIED | PROCESSING | ACTIVE | FAILED

fun state_name :: "file_state \<Rightarrow> string" where
  "state_name STATE_UNSPECIFIED = ''STATE_UNSPECIFIED''"
| "state_name PROCESSING = ''PROCESSING''"
| "state_name ACTIVE = ''ACTIVE''"
| "state_name FAILED = ''FAILED''"

record file_ref =
  name :: string
  uri :: string
  state :: file_state

record completed_process =
  args :: "chunk list"
  returncode :: int
  stdout :: string
  stderr :: string

text \<open>
  What the program does to the outside, in the order it does it. \<open>Print\<close> carries the
  text written to standard output, \<open>Sleep\<close> the argument of a call of \<^verbatim>\<open>time.sleep\<close>,
  \<open>Run\<close> the command line of a subprocess, \<open>WriteFile\<close> the whole content of a file
  opened with mode \<^verbatim>\<open>"w"\<close>.
\<close>

datatype event =
    Print string
  | Sleep nat
  | Configure string
  | UploadFile string "string option"
  | GetFile string
  | Run "chunk list"
  | WriteFile string "chunk list"

type_synonym log = "event list"

text \<open>
  The environment of a run: the credential, the names the source directory lists, and
  the answers of the remote services and of the operating system. An answer may depend
  on everything that happened before the call. A call of \<^verbatim>\<open>time.sleep\<close> returns, or it
  is interrupted and raises.
\<close>

record world =
  api_key :: "string option"
  scandir :: "string \<Rightarrow> string list"
  genai_upload_file :: "log \<Rightarrow> string \<Rightarrow> string option \<Rightarrow> exn + file_ref"
  genai_get_file :: "log \<Rightarrow> string \<Rightarrow> exn + file_ref"
  time_sleep :: "log \<Rightarrow> nat \<Rightarrow> exn option"
  getsize :: "string \<Rightarrow> exn + nat"
  subprocess_run :: "log \<Rightarrow> chunk list \<Rightarrow> exn + completed_process"

text \<open>
  A call returns a value or raises, and leaves a log; \<open>None\<close> is a call that never
  returns.
\<close>

type_synonym 'a result = "((exn + 'a) \<times> log) option"

definition println :: "string \<Rightarrow> event" where
  "println s = Print (s @ [CHR 0x0A])"

text \<open>The pictographs of the messages, as the bytes standard output receives.\<close>

definition cross_mark :: string where
  "cross_mark = [CHR 0xE2, CHR 0x9D, CHR 0x8C]"

definition check_mark :: string where
  "check_mark = [CHR 0xE2, CHR 0x9C, CHR 0x85]"

definition folder_mark :: string where
  "folder_mark = [CHR 0xF0, CHR 0x9F, CHR 0x93, CHR 0x82]"

definition outbox_mark :: string where
  "outbox_mark = [CHR 0xF0, CHR 0x9F, CHR 0x93, CHR 0xA4]"

definition rocket_mark :: string where
  "rocket_mark = [CHR 0xF0, CHR 0x9F, CHR 0x9A, CHR 0x80]"

fun is_network_call :: "event \<Rightarrow> bool" where
  "is_network_call (UploadFile p m) = True"
| "is_network_call (GetFile n) = True"
| "is_network_call (Run cmd) = True"
| "is_network_call e = False"

text \<open>The time that has passed, and the times at which the state of a handle is asked for.\<close>

fun poll_times :: "nat \<Rightarrow> log \<Rightarrow> nat list" where
  "poll_times t [] = []"
| "poll_times t (Sleep d # es) = poll_times (t + d) es"
| "poll_times t (GetFile n # es) = t # poll_times t es"
| "poll_times t (e # es) = poll_times t es"

section \<open>The Manifest Builder: \<^verbatim>\<open>prepare_batch.py\<close>\<close>

definition PDF_DIR :: string where
  "PDF_DIR = ''pdfs''"

text \<open>
  The \<^verbatim>\<open>while\<close> loop of \<^verbatim>\<open>upload_file\<close> (lines 29 to 32) and of \<^verbatim>\<open>submit_batch_curl\<close>
  (lines 49 to 51): as long as the handle is \<^verbatim>\<open>PROCESSING\<close>, print \<open>dots\<close> (a dot in the
  first, nothing in the second), sleep \<open>secs\<close> (2 in the first, 1 in the second) and
  fetch the handle again. The loop has no bound.
\<close>

partial_function (option) wait_processing ::
  "world \<Rightarrow> event list \<Rightarrow> nat \<Rightarrow> file_ref \<Rightarrow> log \<Rightarrow> file_ref result" where
  "wait_processing w dots secs file_ref lg =
     (if state_name (state file_ref) = ''PROCESSING'' then
        (case time_sleep w (lg @ dots) secs of
           Some e \<Rightarrow> Some (Inl e, lg @ dots @ [Sleep secs])
         | None \<Rightarrow>
             (case genai_get_file w (lg @ dots @ [Sleep secs]) (name file_ref) of
                Inl e \<Rightarrow> Some (Inl e, lg @ dots @ [Sleep secs, GetFile (name file_ref)])
              | Inr file_ref' \<Rightarrow>
                  wait_processing w dots secs file_ref'
                    (lg @ dots @ [Sleep secs, GetFile (name file_ref)])))
      else Some (Inr file_ref, lg))"

declare wait_processing.simps [code]

text \<open>Lines 26 to 32: the upload and the wait.\<close>

definition upload_and_wait ::
  "world \<Rightarrow> event list \<Rightarrow> nat \<Rightarrow> string \<Rightarrow> string option \<Rightarrow> log \<Rightarrow> file_ref result" where
  "upload_and_wait w dots secs path mime_type lg =
     (case genai_upload_file w lg path mime_type of
        Inl e \<Rightarrow> Some (Inl e, lg @ [UploadFile path mime_type])
      | Inr file_ref \<Rightarrow> wait_processing w dots secs file_ref (lg @ [UploadFile path mime_type]))"

text \<open>
  \<^verbatim>\<open>upload_file\<close> (lines 20 to 42). The handler of line 40 catches what derives from
  \<^verbatim>\<open>Exception\<close>; any other exception leaves the function.
\<close>

definition upload_file :: "world \<Rightarrow> string \<Rightarrow> log \<Rightarrow> string option result" where
  "upload_file w path lg =
     (case upload_and_wait w [Print ''.''] 2 path (Some ''application/pdf'')
             (lg @ [println (''DTO Uploading '' @ path @ ''...'')]) of
        None \<Rightarrow> None
      | Some (Inr file_ref, lg') \<Rightarrow>
          if state_name (state file_ref) \<noteq> ''ACTIVE'' then
            Some (Inr None, lg' @ [println (cross_mark @ '' File '' @ path
                     @ '' failed to process: '' @ state_name (state file_ref))])
          else Some (Inr (Some (uri file_ref)), lg' @ [println (check_mark @ '' Ready: '' @ uri file_ref)])
      | Some (Inl e, lg') \<Rightarrow>
          if is_exception e
          then Some (Inr None, lg' @ [println (cross_mark @ '' Upload failed: '' @ exn_msg e)])
          else Some (Inl e, lg'))"

text \<open>Line 133: the line printed before the upload of the document at index \<open>i\<close>.\<close>

definition preparing :: "nat \<Rightarrow> nat \<Rightarrow> string \<Rightarrow> event" where
  "preparing i n_files pdf_path =
     println (''--- Preparing '' @ str_nat (i + 1) @ ''/'' @ str_nat n_files
                @ '': '' @ basename pdf_path @ '' ---'')"

text \<open>The loop of \<^verbatim>\<open>create_batch_request\<close> (lines 132 to 158), at index \<open>i\<close>.\<close>

fun create_batch_loop ::
  "world \<Rightarrow> nat \<Rightarrow> nat \<Rightarrow> string list \<Rightarrow> json list \<Rightarrow> log \<Rightarrow> json list result" where
  "create_batch_loop w n_files i [] requests lg = Some (Inr requests, lg)"
| "create_batch_loop w n_files i (pdf_path # rest) requests lg =
     (case upload_file w pdf_path (lg @ [preparing i n_files pdf_path]) of
        None \<Rightarrow> None
      | Some (Inl e, lg') \<Rightarrow> Some (Inl e, lg')
      | Some (Inr file_uri, lg') \<Rightarrow>
          if \<not> truthy file_uri then create_batch_loop w n_files (i + 1) rest requests lg'
          else create_batch_loop w n_files (i + 1) rest
                 (requests @ [build_request pdf_path (the file_uri)]) lg')"

definition create_batch_request :: "world \<Rightarrow> string list \<Rightarrow> log \<Rightarrow> json list result" where
  "create_batch_request w pdf_files lg = create_batch_loop w (length pdf_files) 0 pdf_files [] lg"

text \<open>
  \<^verbatim>\<open>glob.glob(os.path.join(PDF_DIR, "*.pdf"))\<close>: the names of the directory that end in
  \<^verbatim>\<open>.pdf\<close> and do not start with a dot, in the order the directory lists them, each
  joined to the directory.
\<close>

definition glob_pdf :: "world \<Rightarrow> string list" where
  "glob_pdf w =
     map (path_join PDF_DIR)
       (filter (\<lambda>n. ends_with ''.pdf'' n \<and> \<not> starts_with ''.'' n) (scandir w PDF_DIR))"

text \<open>
  Lines 219 to 221: what the loop over the requests writes to the file, for each
  request the text \<^verbatim>\<open>json.dumps\<close> returns for it and a newline.
\<close>

definition jsonl :: "json list \<Rightarrow> chunk list" where
  "jsonl requests = concat (map (\<lambda>r. [Dumps r, Chars [CHR 0x0A]]) requests)"

text \<open>
  The script (lines 208 to 224, with \<^verbatim>\<open>setup\<close>): the exit status and the log. An
  exception nobody catches ends the process.
\<close>

definition prepare_batch_main :: "world \<Rightarrow> log \<Rightarrow> (nat \<times> log) option" where
  "prepare_batch_main w lg =
     (if \<not> truthy (api_key w) then
        Some (1, lg @ [println (cross_mark @ '' Error: GEMINI_API_KEY environment variable not set.'')])
      else
        (let files = glob_pdf w in
         case create_batch_request w files
                (lg @ [Configure (the (api_key w)),
                       println (folder_mark @ '' Found '' @ str_nat (length files) @ '' PDFs.'')]) of
           None \<Rightarrow> None
         | Some (Inl e, lg') \<Rightarrow> Some (uncaught_status e, lg')
         | Some (Inr requests, lg') \<Rightarrow>
             Some (0, lg' @
               [WriteFile ''batch_requests.jsonl'' (jsonl requests),
                println ([CHR 0x0A] @ check_mark @ '' generated batch_requests.jsonl with ''
                           @ str_nat (length requests) @ '' entries.''),
                println (''Run: '' @ [CHR 0x27] @ ''python submit_job.py'' @ [CHR 0x27]
                           @ '' (I will create this next) to finalize.'')])))"

section \<open>The Batch Submitter: \<^verbatim>\<open>submit_job.py\<close>\<close>

definition JSONL_FILE :: string where
  "JSONL_FILE = ''batch_requests.jsonl''"

text \<open>
  \<^verbatim>\<open>res.headers\<close> on the value \<^verbatim>\<open>subprocess.run\<close> returns: a \<^verbatim>\<open>CompletedProcess\<close> has the
  attributes \<^verbatim>\<open>args\<close>, \<^verbatim>\<open>returncode\<close>, \<^verbatim>\<open>stdout\<close> and \<^verbatim>\<open>stderr\<close>, and no other.
\<close>

definition headers :: "completed_process \<Rightarrow> exn + (string \<Rightarrow> string option)" where
  "headers res =
     Inl (Exn ''AttributeError''
            ([CHR 0x27] @ ''CompletedProcess'' @ [CHR 0x27] @ '' object has no attribute ''
               @ [CHR 0x27] @ ''headers'' @ [CHR 0x27]))"

definition upload_cmd :: "string \<Rightarrow> nat \<Rightarrow> chunk list" where
  "upload_cmd key fsize =
     [Chars ''curl'', Chars ''-X'', Chars ''POST'',
      Chars (''https://generativelanguage.googleapis.com/upload/v1beta/files?key='' @ key),
      Chars ''-H'', Chars ''X-Goog-Upload-Protocol: resumable'',
      Chars ''-H'', Chars ''X-Goog-Upload-Command: start'',
      Chars ''-H'', Chars (''X-Goog-Upload-Header-Content-Length: '' @ str_nat fsize),
      Chars ''-H'', Chars ''X-Goog-Upload-Header-Content-Type: application/json'',
      Chars ''-H'', Chars ''Content-Type: application/json'',
      Chars ''-d'', Chars (''{'' @ [CHR 0x22] @ ''file'' @ [CHR 0x22] @ '': {'' @ [CHR 0x22]
              @ ''display_name'' @ [CHR 0x22] @ '': '' @ [CHR 0x22] @ ''batch_requests.jsonl''
              @ [CHR 0x22] @ ''}}'')]"

text \<open>
  Lines 41 to 53: the upload of the manifest through the SDK. After the loop the handle
  is printed as ready and handed on, whatever its state.
\<close>

definition uploadManifest :: "world \<Rightarrow> string \<Rightarrow> log \<Rightarrow> file_ref result" where
  "uploadManifest w key lg =
     (case upload_and_wait w [] 1 JSONL_FILE None
             (lg @ [Configure key, println (outbox_mark @ '' Uploading JSONL via Python SDK...'')]) of
        None \<Rightarrow> None
      | Some (Inl e, lg') \<Rightarrow> Some (Inl e, lg')
      | Some (Inr batch_file, lg') \<Rightarrow>
          Some (Inr batch_file,
                lg' @ [println (check_mark @ '' Batch Input File Ready: '' @ uri batch_file)]))"

text \<open>Lines 58 to 102: the creation of the batch job with \<^verbatim>\<open>curl\<close>, and the report.\<close>

definition payload :: "file_ref \<Rightarrow> chunk" where
  "payload batch_file = Dumps (JObj [(''source'', JObj [(''file_uri'', JStr (uri batch_file))])])"

definition curl_cmd :: "string \<Rightarrow> file_ref \<Rightarrow> chunk list" where
  "curl_cmd key batch_file =
     [Chars ''curl'', Chars ''-X'', Chars ''POST'',
      Chars (''https://generativelanguage.googleapis.com/v1beta/batches?key='' @ key),
      Chars ''-H'', Chars ''Content-Type: application/json'',
      Chars ''-d'', payload batch_file]"

definition createBatchJob :: "world \<Rightarrow> string \<Rightarrow> file_ref \<Rightarrow> log \<Rightarrow> unit result" where
  "createBatchJob w key batch_file lg =
     (let lg1 = lg @ [println (rocket_mark @ '' Creating Batch Job...'')] in
      case subprocess_run w lg1 (curl_cmd key batch_file) of
        Inl e \<Rightarrow> Some (Inl e, lg1 @ [Run (curl_cmd key batch_file)])
      | Inr final_res \<Rightarrow>
          Some (Inr (),
                lg1 @ [Run (curl_cmd key batch_file),
                       println (''Response: '' @ stdout final_res),
                       if str_in ''error'' (stdout final_res)
                       then println (cross_mark @ '' Batch Creation Failed.'')
                       else println (check_mark @ '' Batch Job Created! Check response for ID.'')]))"

text \<open>Lines 35 to 102: the body of the \<^verbatim>\<open>try\<close>.\<close>

definition submit_try :: "world \<Rightarrow> string \<Rightarrow> nat \<Rightarrow> log \<Rightarrow> unit result" where
  "submit_try w key fsize lg =
     (case subprocess_run w lg (upload_cmd key fsize) of
        Inl e \<Rightarrow> Some (Inl e, lg @ [Run (upload_cmd key fsize)])
      | Inr res \<Rightarrow>
          (case headers res of
             Inl e \<Rightarrow> Some (Inl e, lg @ [Run (upload_cmd key fsize)])
           | Inr hs \<Rightarrow>
               (let upload_url = hs ''x-goog-upload-url'' in
                case uploadManifest w key (lg @ [Run (upload_cmd key fsize)]) of
                  None \<Rightarrow> None
                | Some (Inl e, lg') \<Rightarrow> Some (Inl e, lg')
                | Some (Inr batch_file, lg') \<Rightarrow> createBatchJob w key batch_file lg')))"

text \<open>
  \<^verbatim>\<open>submit_batch_curl\<close> (lines 11 to 105). The size of the manifest is read while the
  first command is built, before the \<^verbatim>\<open>try\<close>. The handler of line 104 catches what
  derives from \<^verbatim>\<open>Exception\<close>; any other exception leaves the function.
\<close>

definition submit_batch_curl :: "world \<Rightarrow> log \<Rightarrow> unit result" where
  "submit_batch_curl w lg =
     (if \<not> truthy (api_key w) then Some (Inr (), lg @ [println (cross_mark @ '' API Key missing'')])
      else
        (let key = the (api_key w);
             lg1 = lg @ [println (outbox_mark @ '' Uploading batch_requests.jsonl to Gemini File API...'')]
         in case getsize w JSONL_FILE of
              Inl e \<Rightarrow> Some (Inl e, lg1)
            | Inr fsize \<Rightarrow>
                (case submit_try w key fsize lg1 of
                   None \<Rightarrow> None
                 | Some (Inl e, lg') \<Rightarrow>
                     if is_exception e
                     then Some (Inr (), lg' @ [println (cross_mark @ '' Error: '' @ exn_msg e)])
                     else Some (Inl e, lg')
                 | Some (Inr u, lg') \<Rightarrow> Some (Inr u, lg'))))"

text \<open>The script: the exit status and the log.\<close>

definition submit_job_main :: "world \<Rightarrow> log \<Rightarrow> (nat \<times> log) option" where
  "submit_job_main w lg =
     (case submit_batch_curl w lg of
        None \<Rightarrow> None
      | Some (Inl e, lg') \<Rightarrow> Some (uncaught_status e, lg')
      | Some (Inr u, lg') \<Rightarrow> Some (0, lg'))"

section \<open>Notions the statements use\<close>

text \<open>
  The handle and the log after at most \<open>k\<close> rounds of the waiting loop, and when a
  handle needs no further round: a call raised, or the state is no longer
  \<^verbatim>\<open>PROCESSING\<close>.
\<close>

fun polls ::
  "world \<Rightarrow> event list \<Rightarrow> nat \<Rightarrow> nat \<Rightarrow> file_ref \<Rightarrow> log \<Rightarrow> (exn + file_ref) \<times> log" where
  "polls w dots secs 0 file_ref lg = (Inr file_ref, lg)"
| "polls w dots secs (Suc k) file_ref lg =
     (if state_name (state file_ref) = ''PROCESSING'' then
        (case time_sleep w (lg @ dots) secs of
           Some e \<Rightarrow> (Inl e, lg @ dots @ [Sleep secs])
         | None \<Rightarrow>
             (case genai_get_file w (lg @ dots @ [Sleep secs]) (name file_ref) of
                Inl e \<Rightarrow> (Inl e, lg @ dots @ [Sleep secs, GetFile (name file_ref)])
              | Inr file_ref' \<Rightarrow>
                  polls w dots secs k file_ref' (lg @ dots @ [Sleep secs, GetFile (name file_ref)])))
      else (Inr file_ref, lg))"

fun settled :: "exn + file_ref \<Rightarrow> bool" where
  "settled (Inl e) = True"
| "settled (Inr file_ref) = (state file_ref \<noteq> PROCESSING)"

text \<open>
  What each upload of a run returned, document by document in the order of discovery
  (the spec: for each document in discovery order, attempt the upload).
\<close>

fun upload_results :: "world \<Rightarrow> nat \<Rightarrow> nat \<Rightarrow> string list \<Rightarrow> log \<Rightarrow> (string \<times> string option) list" where
  "upload_results w n_files i [] lg = []"
| "upload_results w n_files i (pdf_path # rest) lg =
     (case upload_file w pdf_path (lg @ [preparing i n_files pdf_path]) of
        Some (Inr file_uri, lg') \<Rightarrow> (pdf_path, file_uri) # upload_results w n_files (i + 1) rest lg'
      | _ \<Rightarrow> [])"

text \<open>The records of the documents whose upload returned a URI (a string that is not empty).\<close>

definition records_of :: "(string \<times> string option) list \<Rightarrow> json list" where
  "records_of results =
     map (\<lambda>(pdf_path, file_uri). build_request pdf_path (the file_uri))
       (filter (\<lambda>(pdf_path, file_uri). truthy file_uri) results)"

fun is_upload :: "event \<Rightarrow> bool" where
  "is_upload (UploadFile p m) = True"
| "is_upload e = False"

fun is_run :: "event \<Rightarrow> bool" where
  "is_run (Run cmd) = True"
| "is_run e = False"

fun is_write :: "event \<Rightarrow> bool" where
  "is_write (WriteFile p content) = True"
| "is_write e = False"

text \<open>
  A world to run the scripts in. The directory lists three documents and a text file.
  The first document is \<^verbatim>\<open>PROCESSING\<close> until it has been asked for twice, the second is
  \<^verbatim>\<open>ACTIVE\<close> at once, the upload of the third raises. The manifest is \<^verbatim>\<open>PROCESSING\<close>
  until it has been asked for twice and \<^verbatim>\<open>FAILED\<close> then.
\<close>

definition asked :: "string \<Rightarrow> log \<Rightarrow> nat" where
  "asked n lg = length (filter (\<lambda>e. e = GetFile n) lg)"

definition demo_world :: world where
  "demo_world =
     \<lparr> api_key = Some ''KEY'',
       scandir = (\<lambda>d. if d = ''pdfs'' then [''a.pdf'', ''b_MEMO.pdf'', ''c.pdf'', ''notes.txt''] else []),
       genai_upload_file = (\<lambda>lg path mime_type.
          if path = ''pdfs/a.pdf'' then Inr \<lparr> name = ''files/a'', uri = ''https://f/a'', state = PROCESSING \<rparr>
          else if path = ''pdfs/b_MEMO.pdf'' then Inr \<lparr> name = ''files/b'', uri = ''https://f/b'', state = ACTIVE \<rparr>
          else if path = ''batch_requests.jsonl'' then Inr \<lparr> name = ''files/m'', uri = ''https://f/m'', state = PROCESSING \<rparr>
          else Inl (Exn ''ConnectionError'' ''connection reset'')),
       genai_get_file = (\<lambda>lg n.
          if n = ''files/a'' then
            Inr \<lparr> name = n, uri = ''https://f/a'', state = (if asked n lg < 1 then PROCESSING else ACTIVE) \<rparr>
          else if n = ''files/m'' then
            Inr \<lparr> name = n, uri = ''https://f/m'', state = (if asked n lg < 1 then PROCESSING else FAILED) \<rparr>
          else Inl (Exn ''NotFound'' ''no such file'')),
       time_sleep = (\<lambda>lg secs. None),
       getsize = (\<lambda>path. Inr 120),
       subprocess_run = (\<lambda>lg cmd. Inr \<lparr> args = cmd, returncode = 0, stdout = ''{}'', stderr = [] \<rparr>) \<rparr>"

text \<open>The same world without the credential, and without the manifest file.\<close>

definition nokey_world :: world where
  "nokey_world = demo_world \<lparr> api_key := None \<rparr>"




text \<open>The same world where every subprocess answers with an error body.\<close>

definition error_world :: world where
  "error_world =
     demo_world \<lparr> subprocess_run := (\<lambda>lg cmd.
        Inr \<lparr> args = cmd, returncode = 0,
              stdout = ''{'' @ [CHR 0x22] @ ''error'' @ [CHR 0x22] @ '': {'' @ [CHR 0x22] @ ''code''
                         @ [CHR 0x22] @ '': 400}}'',
              stderr = [] \<rparr>) \<rparr>"

text \<open>The same world with an empty directory.\<close>

definition empty_world :: world where
  "empty_world = demo_world \<lparr> scandir := (\<lambda>d. []) \<rparr>"

text \<open>What the loop of \<^verbatim>\<open>create_batch_request\<close> adds to the log in that world.\<close>

definition demo_uploads :: log where
  "demo_uploads =
     [preparing 0 3 ''pdfs/a.pdf'',
      println ''DTO Uploading pdfs/a.pdf...'',
      UploadFile ''pdfs/a.pdf'' (Some ''application/pdf''),
      Print ''.'', Sleep 2, GetFile ''files/a'',
      Print ''.'', Sleep 2, GetFile ''files/a'',
      println (check_mark @ '' Ready: https://f/a''),
      preparing 1 3 ''pdfs/b_MEMO.pdf'',
      println ''DTO Uploading pdfs/b_MEMO.pdf...'',
      UploadFile ''pdfs/b_MEMO.pdf'' (Some ''application/pdf''),
      println (check_mark @ '' Ready: https://f/b''),
      preparing 2 3 ''pdfs/c.pdf'',
      println ''DTO Uploading pdfs/c.pdf...'',
      UploadFile ''pdfs/c.pdf'' (Some ''application/pdf''),
      println (cross_mark @ '' Upload failed: connection reset'')]"

text \<open>The content of a file after a run: what the last \<open>WriteFile\<close> of the log wrote.\<close>

fun written :: "string \<Rightarrow> log \<Rightarrow> chunk list option" where
  "written path [] = None"
| "written path (WriteFile p content # es) =
     (case written path es of Some c \<Rightarrow> Some c | None \<Rightarrow> if p = path then Some content else None)"
| "written path (e # es) = written path es"

section \<open>Substrings\<close>

lemma starts_with_iff: "starts_with p s \<longleftrightarrow> (\<exists>r. s = p @ r)"
  by (induction p s rule: starts_with.induct) auto

lemma str_in_iff: "str_in sub s \<longleftrightarrow> (\<exists>a b. s = a @ sub @ b)"
proof (induction s)
  case Nil
  show ?case by auto
next
  case (Cons c cs)
  show ?case
  proof
    assume "str_in sub (c # cs)"
    then consider "starts_with sub (c # cs)" | "str_in sub cs" by auto
    then show "\<exists>a b. c # cs = a @ sub @ b"
    proof cases
      case 1
      then obtain r where "c # cs = sub @ r" by (auto simp: starts_with_iff)
      then have "c # cs = [] @ sub @ r" by simp
      then show ?thesis by blast
    next
      case 2
      then obtain a b where "cs = a @ sub @ b" using Cons.IH by auto
      then have "c # cs = (c # a) @ sub @ b" by simp
      then show ?thesis by blast
    qed
  next
    assume "\<exists>a b. c # cs = a @ sub @ b"
    then obtain a b where ab: "c # cs = a @ sub @ b" by auto
    show "str_in sub (c # cs)"
    proof (cases a)
      case Nil
      with ab have "starts_with sub (c # cs)" by (auto simp: starts_with_iff)
      then show ?thesis by simp
    next
      case (Cons x xs)
      with ab have "cs = xs @ sub @ b" by simp
      then have "str_in sub cs" using Cons.IH by auto
      then show ?thesis by simp
    qed
  qed
qed

lemma schemas_differ: "memo_schema \<noteq> qp_schema"
  by (simp add: memo_schema_def qp_schema_def)

section \<open>Classification\<close>

text \<open>
  Claim C2. The schema and the prompt of the record built for a document depend on the
  file name alone: when the upper-cased file name contains \<^verbatim>\<open>MEMO\<close> or \<^verbatim>\<open>MG\<close> anywhere, the
  record carries the memo schema and the memo prompt, and for every other file name the
  question-paper schema and the question-paper prompt. The two schemas differ.
\<close>

theorem classification_by_filename:
  "record_schema (build_request pdf_path file_uri) =
     Some (if (\<exists>a b. upper (basename pdf_path) = a @ ''MEMO'' @ b)
              \<or> (\<exists>a b. upper (basename pdf_path) = a @ ''MG'' @ b)
           then memo_schema else qp_schema)
   \<and> record_prompt (build_request pdf_path file_uri) =
     Some (JStr (if (\<exists>a b. upper (basename pdf_path) = a @ ''MEMO'' @ b)
              \<or> (\<exists>a b. upper (basename pdf_path) = a @ ''MG'' @ b)
           then ''Extract the marking guidelines.'' else ''Extract the full exam paper structure.''))
   \<and> memo_schema \<noteq> qp_schema"
  by (simp add: build_request_def record_schema_def record_prompt_def record_parts_def
      select_schema_def select_prompt_def is_memo_def str_in_iff schemas_differ Let_def)

section \<open>The waiting loop\<close>

lemma state_name_processing [simp]: "state_name s = ''PROCESSING'' \<longleftrightarrow> s = PROCESSING"
  by (cases s) simp_all

lemma state_name_active [simp]: "state_name s = ''ACTIVE'' \<longleftrightarrow> s = ACTIVE"
  by (cases s) simp_all

lemma wait_processing_returns:
  "settled (fst (polls w dots secs k file_ref lg)) \<Longrightarrow>
   wait_processing w dots secs file_ref lg = Some (polls w dots secs k file_ref lg)"
proof (induction k arbitrary: file_ref lg)
  case 0
  then show ?case by (subst wait_processing.simps) simp
next
  case (Suc k)
  show ?case
  proof (cases "state file_ref = PROCESSING")
    case False
    then show ?thesis by (subst wait_processing.simps) simp
  next
    case True
    show ?thesis
    proof (cases "time_sleep w (lg @ dots) secs")
      case (Some e)
      with True show ?thesis by (subst wait_processing.simps) simp
    next
      case None
      show ?thesis
      proof (cases "genai_get_file w (lg @ dots @ [Sleep secs]) (name file_ref)")
        case (Inl e)
        with True None show ?thesis by (subst wait_processing.simps) simp
      next
        case (Inr fr')
        with True None Suc.prems
        have "settled (fst (polls w dots secs k fr' (lg @ dots @ [Sleep secs, GetFile (name file_ref)])))"
          by simp
        then have "wait_processing w dots secs fr' (lg @ dots @ [Sleep secs, GetFile (name file_ref)])
                   = Some (polls w dots secs k fr' (lg @ dots @ [Sleep secs, GetFile (name file_ref)]))"
          by (rule Suc.IH)
        with True None Inr show ?thesis by (subst wait_processing.simps) simp
      qed
    qed
  qed
qed

lemma wait_processing_sound:
  assumes "wait_processing w dots secs file_ref lg = Some r"
  shows "\<exists>k. r = polls w dots secs k file_ref lg \<and> settled (fst r)"
proof (rule wait_processing.raw_induct
    [where P = "\<lambda>w dots secs file_ref lg r. \<exists>k. r = polls w dots secs k file_ref lg \<and> settled (fst r)",
     OF _ assms])
  fix wp w dots secs file_ref lg r
  assume IH: "\<And>w dots secs file_ref lg r. wp w dots secs file_ref lg = Some r \<Longrightarrow>
                \<exists>k. r = polls w dots secs k file_ref lg \<and> settled (fst r)"
    and step: "(if state_name (state file_ref) = ''PROCESSING''
                then case time_sleep w (lg @ dots) secs of
                       Some e \<Rightarrow> Some (Inl e, lg @ dots @ [Sleep secs])
                     | None \<Rightarrow>
                         (case genai_get_file w (lg @ dots @ [Sleep secs]) (name file_ref) of
                            Inl e \<Rightarrow> Some (Inl e, lg @ dots @ [Sleep secs, GetFile (name file_ref)])
                          | Inr file_ref' \<Rightarrow>
                              wp w dots secs file_ref'
                                (lg @ dots @ [Sleep secs, GetFile (name file_ref)]))
                else Some (Inr file_ref, lg)) = Some r"
  show "\<exists>k. r = polls w dots secs k file_ref lg \<and> settled (fst r)"
  proof (cases "state file_ref = PROCESSING")
    case False
    with step have "r = polls w dots secs 0 file_ref lg \<and> settled (fst r)" by auto
    then show ?thesis by blast
  next
    case True
    show ?thesis
    proof (cases "time_sleep w (lg @ dots) secs")
      case (Some e)
      with True step have "r = polls w dots secs (Suc 0) file_ref lg \<and> settled (fst r)" by auto
      then show ?thesis by blast
    next
      case None
      show ?thesis
      proof (cases "genai_get_file w (lg @ dots @ [Sleep secs]) (name file_ref)")
        case (Inl e)
        with True None step have "r = polls w dots secs (Suc 0) file_ref lg \<and> settled (fst r)" by auto
        then show ?thesis by blast
      next
        case (Inr fr')
        with True None step
        have "wp w dots secs fr' (lg @ dots @ [Sleep secs, GetFile (name file_ref)]) = Some r" by simp
        then obtain k where
          "r = polls w dots secs k fr' (lg @ dots @ [Sleep secs, GetFile (name file_ref)])"
          "settled (fst r)"
          using IH by blast
        with True None Inr have "r = polls w dots secs (Suc k) file_ref lg \<and> settled (fst r)" by simp
        then show ?thesis by blast
      qed
    qed
  qed
qed

lemma polls_log:
  "\<exists>nms tail. snd (polls w dots secs k file_ref lg)
       = lg @ concat (map (\<lambda>n. dots @ [Sleep secs, GetFile n]) nms) @ tail
     \<and> (tail = [] \<or> tail = dots @ [Sleep secs])"
proof (induction k arbitrary: file_ref lg)
  case 0
  have "snd (polls w dots secs 0 file_ref lg)
        = lg @ concat (map (\<lambda>n. dots @ [Sleep secs, GetFile n]) []) @ []" by simp
  then show ?case by blast
next
  case (Suc k)
  show ?case
  proof (cases "state file_ref = PROCESSING")
    case False
    then have "snd (polls w dots secs (Suc k) file_ref lg)
        = lg @ concat (map (\<lambda>n. dots @ [Sleep secs, GetFile n]) []) @ []" by simp
    then show ?thesis by blast
  next
    case True
    show ?thesis
    proof (cases "time_sleep w (lg @ dots) secs")
      case (Some e)
      with True have "snd (polls w dots secs (Suc k) file_ref lg)
          = lg @ concat (map (\<lambda>n. dots @ [Sleep secs, GetFile n]) []) @ (dots @ [Sleep secs])" by simp
      then show ?thesis by blast
    next
      case None
      show ?thesis
      proof (cases "genai_get_file w (lg @ dots @ [Sleep secs]) (name file_ref)")
        case (Inl e)
        with True None have "snd (polls w dots secs (Suc k) file_ref lg)
            = lg @ concat (map (\<lambda>n. dots @ [Sleep secs, GetFile n]) [name file_ref]) @ []" by simp
        then show ?thesis by blast
      next
        case (Inr fr')
        obtain nms tail where
          "snd (polls w dots secs k fr' (lg @ dots @ [Sleep secs, GetFile (name file_ref)]))
            = (lg @ dots @ [Sleep secs, GetFile (name file_ref)])
                @ concat (map (\<lambda>n. dots @ [Sleep secs, GetFile n]) nms) @ tail"
          and t: "tail = [] \<or> tail = dots @ [Sleep secs]"
          using Suc.IH by blast
        with True None Inr have "snd (polls w dots secs (Suc k) file_ref lg)
            = lg @ concat (map (\<lambda>n. dots @ [Sleep secs, GetFile n]) (name file_ref # nms)) @ tail"
          by simp
        with t show ?thesis by blast
      qed
    qed
  qed
qed





section \<open>The upload of one document\<close>

lemma upload_and_wait_sound:
  assumes "upload_and_wait w dots secs path mime_type lg = Some (r, lg')"
  shows "settled r
     \<and> (\<exists>nms tail. lg' = lg @ UploadFile path mime_type
                          # concat (map (\<lambda>n. dots @ [Sleep secs, GetFile n]) nms) @ tail
           \<and> (tail = [] \<or> tail = dots @ [Sleep secs]))"
proof (cases "genai_upload_file w lg path mime_type")
  case (Inl e)
  with assms have "r = Inl e"
    "lg' = lg @ UploadFile path mime_type # concat (map (\<lambda>n. dots @ [Sleep secs, GetFile n]) []) @ []"
    by (simp_all add: upload_and_wait_def)
  then show ?thesis by (metis settled.simps(1))
next
  case (Inr fr0)
  with assms have "wait_processing w dots secs fr0 (lg @ [UploadFile path mime_type]) = Some (r, lg')"
    by (simp add: upload_and_wait_def)
  then obtain k where k: "(r, lg') = polls w dots secs k fr0 (lg @ [UploadFile path mime_type])" "settled r"
    using wait_processing_sound by fastforce
  obtain nms tail where "snd (polls w dots secs k fr0 (lg @ [UploadFile path mime_type]))
      = (lg @ [UploadFile path mime_type]) @ concat (map (\<lambda>n. dots @ [Sleep secs, GetFile n]) nms) @ tail"
    and t: "tail = [] \<or> tail = dots @ [Sleep secs]"
    using polls_log by blast
  with k(1) have "lg' = lg @ UploadFile path mime_type
                     # concat (map (\<lambda>n. dots @ [Sleep secs, GetFile n]) nms) @ tail"
    by (metis append_Cons append_Nil append_assoc snd_conv)
  with k(2) t show ?thesis by blast
qed







section \<open>The manifest\<close>

lemma create_batch_loop_results:
  "create_batch_loop w n_files i pdf_files requests lg = Some (Inr out, lg') \<Longrightarrow>
   map fst (upload_results w n_files i pdf_files lg) = pdf_files
   \<and> out = requests @ records_of (upload_results w n_files i pdf_files lg)"
proof (induction pdf_files arbitrary: i requests lg)
  case Nil
  then show ?case by (simp add: records_of_def)
next
  case (Cons p ps)
  from Cons.prems obtain r lg1 where up: "upload_file w p (lg @ [preparing i n_files p]) = Some (r, lg1)"
    by (cases "upload_file w p (lg @ [preparing i n_files p])") auto
  from up Cons.prems obtain file_uri where r: "r = Inr file_uri"
    by (cases r) auto
  show ?case
  proof (cases "truthy file_uri")
    case False
    with Cons.prems up r have "create_batch_loop w n_files (i + 1) ps requests lg1 = Some (Inr out, lg')"
      by simp
    from Cons.IH [OF this] up r False show ?thesis by (simp add: records_of_def)
  next
    case True
    with Cons.prems up r have
      "create_batch_loop w n_files (i + 1) ps (requests @ [build_request p (the file_uri)]) lg1
       = Some (Inr out, lg')"
      by simp
    from Cons.IH [OF this] up r True show ?thesis by (simp add: records_of_def)
  qed
qed

lemma create_batch_loop_returns:
  "map fst (upload_results w n_files i pdf_files lg) = pdf_files \<Longrightarrow>
   \<exists>lg'. create_batch_loop w n_files i pdf_files requests lg
           = Some (Inr (requests @ records_of (upload_results w n_files i pdf_files lg)), lg')"
proof (induction pdf_files arbitrary: i requests lg)
  case Nil
  show ?case by (simp add: records_of_def)
next
  case (Cons p ps)
  from Cons.prems obtain file_uri lg1 where
    up: "upload_file w p (lg @ [preparing i n_files p]) = Some (Inr file_uri, lg1)"
    by (auto split: option.splits sum.splits prod.splits)
  with Cons.prems have rest: "map fst (upload_results w n_files (i + 1) ps lg1) = ps" by simp
  show ?case
  proof (cases "truthy file_uri")
    case False
    from Cons.IH [OF rest, of requests] up False show ?thesis by (simp add: records_of_def)
  next
    case True
    from Cons.IH [OF rest, of "requests @ [build_request p (the file_uri)]"] up True
    show ?thesis by (simp add: records_of_def)
  qed
qed

lemma upload_results_all:
  "\<forall>p \<in> set pdf_files. \<forall>l. \<exists>r l'. upload_file w p l = Some (Inr r, l') \<Longrightarrow>
   map fst (upload_results w n_files i pdf_files lg) = pdf_files"
proof (induction pdf_files arbitrary: i lg)
  case Nil
  show ?case by simp
next
  case (Cons p ps)
  from Cons.prems obtain r l' where "upload_file w p (lg @ [preparing i n_files p]) = Some (Inr r, l')"
    by (meson list.set_intros(1))
  moreover from Cons.prems have "map fst (upload_results w n_files (i + 1) ps l') = ps"
    by (intro Cons.IH) simp
  ultimately show ?case by simp
qed

lemma written_snoc_write [simp]:
  "written path (es @ [WriteFile path content, Print a, Print b]) = Some content"
  by (induction path es rule: written.induct) (simp_all split: option.splits)

lemma written_no_write: "\<forall>e \<in> set es. \<not> is_write e \<Longrightarrow> written path es = None"
  by (induction path es rule: written.induct) simp_all

lemma upload_file_log:
  assumes "upload_file w path lg = Some (r, lg')"
  shows "\<exists>es. lg' = lg @ es \<and> (\<forall>e \<in> set es. \<not> is_write e)"
proof -
  let ?lg0 = "lg @ [println (''DTO Uploading '' @ path @ ''...'')]"
  from assms obtain h lg1 last where
    uw: "upload_and_wait w [Print ''.''] 2 path (Some ''application/pdf'') ?lg0 = Some (h, lg1)"
    and lg': "lg' = lg1 @ last" and last: "last = [] \<or> (\<exists>s. last = [Print s])"
    by (auto simp: upload_file_def println_def split: option.splits sum.splits prod.splits if_splits)
  from upload_and_wait_sound [OF uw] obtain nms tail where
    lg1: "lg1 = ?lg0 @ UploadFile path (Some ''application/pdf'')
             # concat (map (\<lambda>n. [Print ''.''] @ [Sleep 2, GetFile n]) nms) @ tail"
    and tail: "tail = [] \<or> tail = [Print ''.''] @ [Sleep 2]"
    by blast
  let ?es = "println (''DTO Uploading '' @ path @ ''...'') # UploadFile path (Some ''application/pdf'')
        # concat (map (\<lambda>n. [Print ''.''] @ [Sleep 2, GetFile n]) nms) @ tail @ last"
  from lg1 lg' have "lg' = lg @ ?es" by simp
  moreover from tail last have "\<forall>e \<in> set ?es. \<not> is_write e"
    by (auto simp: println_def)
  ultimately show ?thesis by blast
qed

lemma create_batch_loop_log:
  "create_batch_loop w n_files i pdf_files requests lg = Some (r, lg') \<Longrightarrow>
   \<exists>es. lg' = lg @ es \<and> (\<forall>e \<in> set es. \<not> is_write e)"
proof (induction pdf_files arbitrary: i requests lg)
  case Nil
  then have "lg' = lg @ []" by simp
  then show ?case by force
next
  case (Cons p ps)
  from Cons.prems obtain u lg1 where up: "upload_file w p (lg @ [preparing i n_files p]) = Some (u, lg1)"
    by (cases "upload_file w p (lg @ [preparing i n_files p])") auto
  from upload_file_log [OF up] obtain es1 where
    es1: "lg1 = (lg @ [preparing i n_files p]) @ es1" "\<forall>e \<in> set es1. \<not> is_write e"
    by blast
  show ?case
  proof (cases u)
    case (Inl e)
    with Cons.prems up have "lg' = lg1" by simp
    with es1 have "lg' = lg @ (preparing i n_files p # es1)"
      "\<forall>e \<in> set (preparing i n_files p # es1). \<not> is_write e"
      by (simp_all add: preparing_def println_def)
    then show ?thesis by blast
  next
    case (Inr file_uri)
    with Cons.prems up obtain requests' where
      "create_batch_loop w n_files (i + 1) ps requests' lg1 = Some (r, lg')"
      by (cases "truthy file_uri") auto
    from Cons.IH [OF this] obtain es2 where
      es2: "lg' = lg1 @ es2" "\<forall>e \<in> set es2. \<not> is_write e"
      by blast
    with es1 have "lg' = lg @ (preparing i n_files p # es1 @ es2)"
      "\<forall>e \<in> set (preparing i n_files p # es1 @ es2). \<not> is_write e"
      by (auto simp: preparing_def println_def)
    then show ?thesis by blast
  qed
qed

lemma prepare_batch_main_wrote:
  assumes "truthy (api_key w)" and "prepare_batch_main w lg = Some (status, lg')"
    and "written path (drop (length lg) lg') = Some content"
  shows "\<exists>requests lg1.
           create_batch_request w (glob_pdf w)
             (lg @ [Configure (the (api_key w)),
                    println (folder_mark @ '' Found '' @ str_nat (length (glob_pdf w)) @ '' PDFs.'')])
             = Some (Inr requests, lg1)"
proof -
  let ?lg0 = "lg @ [Configure (the (api_key w)),
                    println (folder_mark @ '' Found '' @ str_nat (length (glob_pdf w)) @ '' PDFs.'')]"
  from assms obtain r lg1 where c: "create_batch_request w (glob_pdf w) ?lg0 = Some (r, lg1)"
    by (cases "create_batch_request w (glob_pdf w) ?lg0") (auto simp: prepare_batch_main_def Let_def)
  show ?thesis
  proof (cases r)
    case (Inr requests)
    with c show ?thesis by blast
  next
    case (Inl e)
    with assms c have l: "lg' = lg1" by (simp add: prepare_batch_main_def Let_def)
    from c obtain es where "lg1 = ?lg0 @ es" "\<forall>e \<in> set es. \<not> is_write e"
      using create_batch_loop_log [of w "length (glob_pdf w)" 0 "glob_pdf w" "[]" ?lg0 r lg1]
      by (auto simp: create_batch_request_def)
    with l have "drop (length lg) lg' =
        Configure (the (api_key w))
          # println (folder_mark @ '' Found '' @ str_nat (length (glob_pdf w)) @ '' PDFs.'') # es"
      by simp
    moreover have "\<forall>e \<in> set (Configure (the (api_key w))
          # println (folder_mark @ '' Found '' @ str_nat (length (glob_pdf w)) @ '' PDFs.'') # es).
          \<not> is_write e"
      using \<open>\<forall>e \<in> set es. \<not> is_write e\<close> by (simp add: println_def)
    ultimately have "written path (drop (length lg) lg') = None"
      by (simp only: written_no_write)
    with assms show ?thesis by simp
  qed
qed

lemma prepare_batch_main_returns:
  assumes "truthy (api_key w)"
    and "create_batch_request w (glob_pdf w)
             (lg @ [Configure (the (api_key w)),
                    println (folder_mark @ '' Found '' @ str_nat (length (glob_pdf w)) @ '' PDFs.'')])
           = Some (Inr requests, lg1)"
  shows "prepare_batch_main w lg =
           Some (0, lg1 @
               [WriteFile ''batch_requests.jsonl'' (jsonl requests),
                println ([CHR 0x0A] @ check_mark @ '' generated batch_requests.jsonl with ''
                           @ str_nat (length requests) @ '' entries.''),
                println (''Run: '' @ [CHR 0x27] @ ''python submit_job.py'' @ [CHR 0x27]
                           @ '' (I will create this next) to finalize.'')])"
  using assms by (simp add: prepare_batch_main_def Let_def)

section \<open>A run in the example world\<close>

lemma demo_glob: "glob_pdf demo_world = [''pdfs/a.pdf'', ''pdfs/b_MEMO.pdf'', ''pdfs/c.pdf'']"
  by (simp add: glob_pdf_def demo_world_def PDF_DIR_def path_join_def)

lemma asked_append: "asked n (xs @ ys) = asked n xs + asked n ys"
  by (simp add: asked_def)

lemma asked_simps [simp]:
  "asked n [] = 0"
  "asked n (Print s # es) = asked n es"
  "asked n (println s # es) = asked n es"
  "asked n (preparing i k p # es) = asked n es"
  "asked n (Sleep d # es) = asked n es"
  "asked n (Configure c # es) = asked n es"
  "asked n (UploadFile p m # es) = asked n es"
  "asked n (GetFile n' # es) = (if n' = n then 1 else 0) + asked n es"
  by (simp_all add: asked_def println_def preparing_def)

lemma demo_upload_a:
  "asked ''files/a'' lg = 0 \<Longrightarrow>
   upload_file demo_world ''pdfs/a.pdf'' lg =
     Some (Inr (Some ''https://f/a''),
           lg @ [println ''DTO Uploading pdfs/a.pdf...'',
                 UploadFile ''pdfs/a.pdf'' (Some ''application/pdf''),
                 Print ''.'', Sleep 2, GetFile ''files/a'',
                 Print ''.'', Sleep 2, GetFile ''files/a'',
                 println (check_mark @ '' Ready: https://f/a'')])"
  by (simp add: upload_file_def upload_and_wait_def demo_world_def asked_append
      wait_processing_returns [where k = "Suc (Suc 0)"])

lemma demo_upload_b:
  "upload_file demo_world ''pdfs/b_MEMO.pdf'' lg =
     Some (Inr (Some ''https://f/b''),
           lg @ [println ''DTO Uploading pdfs/b_MEMO.pdf...'',
                 UploadFile ''pdfs/b_MEMO.pdf'' (Some ''application/pdf''),
                 println (check_mark @ '' Ready: https://f/b'')])"
  by (simp add: upload_file_def upload_and_wait_def demo_world_def
      wait_processing_returns [where k = 0])

lemma demo_upload_c:
  "upload_file demo_world ''pdfs/c.pdf'' lg =
     Some (Inr None,
           lg @ [println ''DTO Uploading pdfs/c.pdf...'',
                 UploadFile ''pdfs/c.pdf'' (Some ''application/pdf''),
                 println (cross_mark @ '' Upload failed: connection reset'')])"
  by (simp add: upload_file_def upload_and_wait_def demo_world_def)

lemma demo_run:
  "asked ''files/a'' lg = 0 \<Longrightarrow>
   create_batch_request demo_world (glob_pdf demo_world) lg =
     Some (Inr [build_request ''pdfs/a.pdf'' ''https://f/a'',
                build_request ''pdfs/b_MEMO.pdf'' ''https://f/b''], lg @ demo_uploads)"
  by (simp add: demo_glob create_batch_request_def demo_upload_a demo_upload_b demo_upload_c
      asked_append demo_uploads_def numeral_3_eq_3 numeral_2_eq_2)

lemma demo_results:
  "asked ''files/a'' lg = 0 \<Longrightarrow>
   upload_results demo_world 3 0 (glob_pdf demo_world) lg =
     [(''pdfs/a.pdf'', Some ''https://f/a''), (''pdfs/b_MEMO.pdf'', Some ''https://f/b''),
      (''pdfs/c.pdf'', None)]"
  by (simp add: demo_glob demo_upload_a demo_upload_b demo_upload_c asked_append
      numeral_3_eq_3 numeral_2_eq_2)

section \<open>The manifest of a run\<close>

text \<open>
  Claim C1. Every document is attempted once, in the order of discovery, and the list
  \<^verbatim>\<open>create_batch_request\<close> returns holds one record for each document whose upload
  returned a URI and none for any other document, in the order of the documents.
  \<^verbatim>\<open>create_batch_request\<close> returns that list exactly when every upload of the run returned
  a value, which is so whenever every upload of a document of the list comes to an end
  without raising. The script then ends with status 0, and the manifest it has written
  is, for each of these records in order, the JSON text of the record and a newline,
  and nothing else. A run of the script that has written a manifest is such a run.
\<close>

theorem manifest_has_the_successful_uploads:
  "((\<exists>lg'. create_batch_request w pdf_files lg =
             Some (Inr (records_of (upload_results w (length pdf_files) 0 pdf_files lg)), lg'))
      \<longleftrightarrow> map fst (upload_results w (length pdf_files) 0 pdf_files lg) = pdf_files)
   \<and> (\<forall>requests lg'. create_batch_request w pdf_files lg = Some (Inr requests, lg') \<longrightarrow>
        requests = records_of (upload_results w (length pdf_files) 0 pdf_files lg))
   \<and> ((\<forall>p \<in> set pdf_files. \<forall>l. \<exists>r l'. upload_file w p l = Some (Inr r, l')) \<longrightarrow>
        map fst (upload_results w (length pdf_files) 0 pdf_files lg) = pdf_files)
   \<and> (truthy (api_key w)
        \<and> map fst (upload_results w (length (glob_pdf w)) 0 (glob_pdf w)
                (lg0 @ [Configure (the (api_key w)),
                        println (folder_mark @ '' Found '' @ str_nat (length (glob_pdf w))
                                   @ '' PDFs.'')])) = glob_pdf w \<longrightarrow>
        (\<exists>lg1. prepare_batch_main w lg0 = Some (0, lg1)
           \<and> written ''batch_requests.jsonl'' lg1 =
               Some (concat (map (\<lambda>r. [Dumps r, Chars [CHR 0x0A]])
                 (records_of (upload_results w (length (glob_pdf w)) 0 (glob_pdf w)
                    (lg0 @ [Configure (the (api_key w)),
                            println (folder_mark @ '' Found '' @ str_nat (length (glob_pdf w))
                                       @ '' PDFs.'')])))))))
   \<and> (truthy (api_key w) \<and> prepare_batch_main w lg0 = Some (status, lg1)
        \<and> written ''batch_requests.jsonl'' (drop (length lg0) lg1) = Some content \<longrightarrow>
        status = 0
        \<and> map fst (upload_results w (length (glob_pdf w)) 0 (glob_pdf w)
                (lg0 @ [Configure (the (api_key w)),
                        println (folder_mark @ '' Found '' @ str_nat (length (glob_pdf w))
                                   @ '' PDFs.'')])) = glob_pdf w
        \<and> content = concat (map (\<lambda>r. [Dumps r, Chars [CHR 0x0A]])
                 (records_of (upload_results w (length (glob_pdf w)) 0 (glob_pdf w)
                    (lg0 @ [Configure (the (api_key w)),
                            println (folder_mark @ '' Found '' @ str_nat (length (glob_pdf w))
                                       @ '' PDFs.'')])))))"
proof (intro conjI impI allI)
  show "(\<exists>lg'. create_batch_request w pdf_files lg =
             Some (Inr (records_of (upload_results w (length pdf_files) 0 pdf_files lg)), lg'))
      \<longleftrightarrow> map fst (upload_results w (length pdf_files) 0 pdf_files lg) = pdf_files"
  proof
    assume "\<exists>lg'. create_batch_request w pdf_files lg =
             Some (Inr (records_of (upload_results w (length pdf_files) 0 pdf_files lg)), lg')"
    then obtain lg' where "create_batch_loop w (length pdf_files) 0 pdf_files [] lg =
             Some (Inr (records_of (upload_results w (length pdf_files) 0 pdf_files lg)), lg')"
      by (auto simp: create_batch_request_def)
    from create_batch_loop_results [OF this]
    show "map fst (upload_results w (length pdf_files) 0 pdf_files lg) = pdf_files" by simp
  next
    assume "map fst (upload_results w (length pdf_files) 0 pdf_files lg) = pdf_files"
    from create_batch_loop_returns [OF this, of "[]"]
    show "\<exists>lg'. create_batch_request w pdf_files lg =
             Some (Inr (records_of (upload_results w (length pdf_files) 0 pdf_files lg)), lg')"
      by (simp add: create_batch_request_def)
  qed
next
  fix requests lg'
  assume "create_batch_request w pdf_files lg = Some (Inr requests, lg')"
  then have "create_batch_loop w (length pdf_files) 0 pdf_files [] lg = Some (Inr requests, lg')"
    by (simp add: create_batch_request_def)
  from create_batch_loop_results [OF this]
  show "requests = records_of (upload_results w (length pdf_files) 0 pdf_files lg)" by simp
next
  assume "\<forall>p \<in> set pdf_files. \<forall>l. \<exists>r l'. upload_file w p l = Some (Inr r, l')"
  then show "map fst (upload_results w (length pdf_files) 0 pdf_files lg) = pdf_files"
    by (rule upload_results_all)
next
  let ?lg = "lg0 @ [Configure (the (api_key w)),
                    println (folder_mark @ '' Found '' @ str_nat (length (glob_pdf w)) @ '' PDFs.'')]"
  let ?records = "records_of (upload_results w (length (glob_pdf w)) 0 (glob_pdf w) ?lg)"
  assume a: "truthy (api_key w)
     \<and> map fst (upload_results w (length (glob_pdf w)) 0 (glob_pdf w) ?lg) = glob_pdf w"
  then obtain lg2 where
    "create_batch_loop w (length (glob_pdf w)) 0 (glob_pdf w) [] ?lg = Some (Inr ([] @ ?records), lg2)"
    using create_batch_loop_returns [of w "length (glob_pdf w)" 0 "glob_pdf w" ?lg "[]"] by blast
  then have "create_batch_request w (glob_pdf w) ?lg = Some (Inr ?records, lg2)"
    by (simp add: create_batch_request_def)
  with a have "prepare_batch_main w lg0 =
           Some (0, lg2 @
               [WriteFile ''batch_requests.jsonl'' (jsonl ?records),
                println ([CHR 0x0A] @ check_mark @ '' generated batch_requests.jsonl with ''
                           @ str_nat (length ?records) @ '' entries.''),
                println (''Run: '' @ [CHR 0x27] @ ''python submit_job.py'' @ [CHR 0x27]
                           @ '' (I will create this next) to finalize.'')])"
    by (simp add: prepare_batch_main_returns)
  then show "\<exists>lg1. prepare_batch_main w lg0 = Some (0, lg1)
           \<and> written ''batch_requests.jsonl'' lg1 =
               Some (concat (map (\<lambda>r. [Dumps r, Chars [CHR 0x0A]]) ?records))"
    by (simp add: println_def jsonl_def)
next
  let ?lg = "lg0 @ [Configure (the (api_key w)),
                    println (folder_mark @ '' Found '' @ str_nat (length (glob_pdf w)) @ '' PDFs.'')]"
  let ?results = "upload_results w (length (glob_pdf w)) 0 (glob_pdf w) ?lg"
  assume a: "truthy (api_key w) \<and> prepare_batch_main w lg0 = Some (status, lg1)
        \<and> written ''batch_requests.jsonl'' (drop (length lg0) lg1) = Some content"
  then obtain requests lg2 where c: "create_batch_request w (glob_pdf w) ?lg = Some (Inr requests, lg2)"
    using prepare_batch_main_wrote [of w lg0 status lg1 "''batch_requests.jsonl''" content] by blast
  then have l: "create_batch_loop w (length (glob_pdf w)) 0 (glob_pdf w) [] ?lg = Some (Inr requests, lg2)"
    by (simp add: create_batch_request_def)
  from create_batch_loop_results [OF l]
  have f: "map fst ?results = glob_pdf w" and r: "requests = records_of ?results" by simp_all
  from create_batch_loop_log [OF l] obtain es where es: "lg2 = ?lg @ es" by blast
  from a c have m: "Some (status, lg1) =
           Some (0, lg2 @
               [WriteFile ''batch_requests.jsonl'' (jsonl requests),
                println ([CHR 0x0A] @ check_mark @ '' generated batch_requests.jsonl with ''
                           @ str_nat (length requests) @ '' entries.''),
                println (''Run: '' @ [CHR 0x27] @ ''python submit_job.py'' @ [CHR 0x27]
                           @ '' (I will create this next) to finalize.'')])"
    using prepare_batch_main_returns [of w lg0 requests lg2] by simp
  then have s: "status = 0" by simp
  from m es have "drop (length lg0) lg1 =
      (Configure (the (api_key w))
         # println (folder_mark @ '' Found '' @ str_nat (length (glob_pdf w)) @ '' PDFs.'') # es)
      @ [WriteFile ''batch_requests.jsonl'' (jsonl requests),
         println ([CHR 0x0A] @ check_mark @ '' generated batch_requests.jsonl with ''
                    @ str_nat (length requests) @ '' entries.''),
         println (''Run: '' @ [CHR 0x27] @ ''python submit_job.py'' @ [CHR 0x27]
                    @ '' (I will create this next) to finalize.'')]"
    by simp
  then have "written ''batch_requests.jsonl'' (drop (length lg0) lg1) = Some (jsonl requests)"
    by (simp only: println_def written_snoc_write)
  with a r have w: "content = concat (map (\<lambda>r. [Dumps r, Chars [CHR 0x0A]]) (records_of ?results))"
    by (simp add: jsonl_def)
  from s show "status = 0" .
  from f show "map fst ?results = glob_pdf w" .
  from w show "content = concat (map (\<lambda>r. [Dumps r, Chars [CHR 0x0A]]) (records_of ?results))" .
qed

theorem manifest_has_the_successful_uploads_witness:
  "upload_results demo_world (length [''pdfs/c.pdf'', ''pdfs/b_MEMO.pdf'']) 0
       [''pdfs/c.pdf'', ''pdfs/b_MEMO.pdf''] []
     = [(''pdfs/c.pdf'', None), (''pdfs/b_MEMO.pdf'', Some ''https://f/b'')]
   \<and> (\<exists>lg'. create_batch_request demo_world [''pdfs/c.pdf'', ''pdfs/b_MEMO.pdf''] [] =
              Some (Inr [build_request ''pdfs/b_MEMO.pdf'' ''https://f/b''], lg'))
   \<and> truthy (api_key demo_world)
   \<and> glob_pdf demo_world = [''pdfs/a.pdf'', ''pdfs/b_MEMO.pdf'', ''pdfs/c.pdf'']
   \<and> upload_results demo_world 3 0 (glob_pdf demo_world)
        [Configure ''KEY'', println (folder_mark @ '' Found 3 PDFs.'')]
     = [(''pdfs/a.pdf'', Some ''https://f/a''), (''pdfs/b_MEMO.pdf'', Some ''https://f/b''),
        (''pdfs/c.pdf'', None)]
   \<and> (\<exists>lg1. prepare_batch_main demo_world [] = Some (0, lg1)
        \<and> written ''batch_requests.jsonl'' lg1 =
            Some [Dumps (build_request ''pdfs/a.pdf'' ''https://f/a''), Chars [CHR 0x0A],
                  Dumps (build_request ''pdfs/b_MEMO.pdf'' ''https://f/b''), Chars [CHR 0x0A]])"
proof -
  let ?two = "[''pdfs/c.pdf'', ''pdfs/b_MEMO.pdf'']"
  let ?lg = "[Configure ''KEY'', println (folder_mark @ '' Found 3 PDFs.'')]"
  note t2 = manifest_has_the_successful_uploads [of demo_world ?two "[]" "[]", THEN conjunct1]
  note t2' = manifest_has_the_successful_uploads [of demo_world ?two "[]" "[]",
      THEN conjunct2, THEN conjunct2, THEN conjunct1]
  have u2: "upload_results demo_world (length ?two) 0 ?two []
            = [(''pdfs/c.pdf'', None), (''pdfs/b_MEMO.pdf'', Some ''https://f/b'')]"
    by (simp add: demo_upload_b demo_upload_c)
  have "\<forall>p \<in> set ?two. \<forall>l. \<exists>r l'. upload_file demo_world p l = Some (Inr r, l')"
    by (simp add: demo_upload_b demo_upload_c)
  with t2' have "map fst (upload_results demo_world (length ?two) 0 ?two []) = ?two"
    by blast
  with t2 have "\<exists>lg'. create_batch_request demo_world ?two [] =
      Some (Inr (records_of (upload_results demo_world (length ?two) 0 ?two [])), lg')"
    by blast
  then have c2: "\<exists>lg'. create_batch_request demo_world ?two [] =
              Some (Inr [build_request ''pdfs/b_MEMO.pdf'' ''https://f/b''], lg')"
    unfolding u2 by (simp add: records_of_def)
  have k: "truthy (api_key demo_world)" and k': "the (api_key demo_world) = ''KEY''"
    by (simp_all add: demo_world_def)
  have n: "length (glob_pdf demo_world) = 3" and n': "str_nat 3 = ''3''"
    by (simp_all add: demo_glob str_nat.simps digit_char_def)
  have u3: "upload_results demo_world 3 0 (glob_pdf demo_world) ?lg
     = [(''pdfs/a.pdf'', Some ''https://f/a''), (''pdfs/b_MEMO.pdf'', Some ''https://f/b''),
        (''pdfs/c.pdf'', None)]"
    by (rule demo_results) simp
  note t3 = manifest_has_the_successful_uploads [of demo_world "[]" "[]" "[]",
      THEN conjunct2, THEN conjunct2, THEN conjunct2, THEN conjunct1]
  have "map fst (upload_results demo_world (length (glob_pdf demo_world)) 0 (glob_pdf demo_world)
                ([] @ [Configure (the (api_key demo_world)),
                        println (folder_mark @ '' Found '' @ str_nat (length (glob_pdf demo_world))
                                   @ '' PDFs.'')])) = glob_pdf demo_world"
    unfolding n k' n' using u3 by (simp add: demo_glob)
  with t3 k have "\<exists>lg1. prepare_batch_main demo_world [] = Some (0, lg1)
           \<and> written ''batch_requests.jsonl'' lg1 =
               Some (concat (map (\<lambda>r. [Dumps r, Chars [CHR 0x0A]])
                 (records_of (upload_results demo_world (length (glob_pdf demo_world)) 0
                    (glob_pdf demo_world)
                    ([] @ [Configure (the (api_key demo_world)),
                            println (folder_mark @ '' Found '' @ str_nat (length (glob_pdf demo_world))
                                       @ '' PDFs.'')])))))"
    by blast
  then have m: "\<exists>lg1. prepare_batch_main demo_world [] = Some (0, lg1)
        \<and> written ''batch_requests.jsonl'' lg1 =
            Some [Dumps (build_request ''pdfs/a.pdf'' ''https://f/a''), Chars [CHR 0x0A],
                  Dumps (build_request ''pdfs/b_MEMO.pdf'' ''https://f/b''), Chars [CHR 0x0A]]"
    unfolding n k' n' by (simp add: u3 records_of_def)
  from u2 c2 k demo_glob u3 m show ?thesis by blast
qed

section \<open>The identifiers of the records\<close>

lemma custom_id_build_request:
  "custom_id (build_request pdf_path file_uri) = Some (JStr (basename pdf_path))"
  by (simp add: custom_id_def build_request_def Let_def)

lemma starts_with_slash: "CHR ''/'' \<notin> set n \<Longrightarrow> \<not> starts_with ''/'' n"
  by (cases n) auto

lemma basename_join: "CHR ''/'' \<notin> set n \<Longrightarrow> basename (path_join PDF_DIR n) = n"
proof -
  assume n: "CHR ''/'' \<notin> set n"
  then have "path_join PDF_DIR n = ''pdfs/'' @ n"
    by (simp add: path_join_def PDF_DIR_def starts_with_slash)
  moreover have "takeWhile (\<lambda>c. c \<noteq> CHR ''/'') (rev n @ ''/sfdp'') = rev n"
    using n by (subst takeWhile_append2) auto
  ultimately show ?thesis by (simp add: basename_def)
qed

lemma glob_basenames:
  assumes "\<forall>n \<in> set (scandir w PDF_DIR). CHR ''/'' \<notin> set n"
  shows "map basename (glob_pdf w)
         = filter (\<lambda>n. ends_with ''.pdf'' n \<and> \<not> starts_with ''.'' n) (scandir w PDF_DIR)"
proof -
  have "map basename (map (path_join PDF_DIR) ns) = ns" if "\<forall>n \<in> set ns. CHR ''/'' \<notin> set n" for ns
    using that by (induction ns) (simp_all add: basename_join)
  from this [of "filter (\<lambda>n. ends_with ''.pdf'' n \<and> \<not> starts_with ''.'' n) (scandir w PDF_DIR)"]
    assms show ?thesis
    by (simp add: glob_pdf_def)
qed

lemma custom_ids_of_records:
  "map custom_id (records_of results)
   = map (\<lambda>(p, r). Some (JStr (basename p))) (filter (\<lambda>(p, r). truthy r) results)"
  by (induction results) (auto simp: records_of_def custom_id_build_request)

lemma custom_ids_distinct:
  assumes "distinct (map basename (map fst results))"
  shows "distinct (map custom_id (records_of results))"
proof -
  have "map (\<lambda>(p, r). Some (JStr (basename p))) (filter (\<lambda>(p, r). truthy r) results)
        = map (\<lambda>s. Some (JStr s)) (map (basename \<circ> fst) (filter (\<lambda>(p, r). truthy r) results))"
    by (simp add: case_prod_beta comp_def)
  moreover from assms have "distinct (map (basename \<circ> fst) (filter (\<lambda>(p, r). truthy r) results))"
    by (simp add: distinct_map_filter)
  moreover have "inj (\<lambda>s. Some (JStr s))" by (simp add: inj_def)
  ultimately show ?thesis
    by (simp add: custom_ids_of_records distinct_map del: map_map) (meson inj_on_subset subset_UNIV)
qed

text \<open>
  Claim C9. The \<^verbatim>\<open>custom_id\<close> of a record is the base name of the path of its document,
  unchanged. In a run of the script, where the documents are those the directory lists
  (the names of a directory are distinct and have no slash), the identifiers of the
  records of the manifest are pairwise distinct.
\<close>

theorem custom_id_is_the_basename_and_unique:
  "custom_id (build_request pdf_path file_uri) = Some (JStr (basename pdf_path))
   \<and> (create_batch_request w pdf_files lg = Some (Inr requests, lg') \<longrightarrow>
        map custom_id requests =
          map (\<lambda>(p, r). Some (JStr (basename p)))
            (filter (\<lambda>(p, r). truthy r) (upload_results w (length pdf_files) 0 pdf_files lg)))
   \<and> (distinct (scandir w PDF_DIR) \<and> (\<forall>n \<in> set (scandir w PDF_DIR). CHR ''/'' \<notin> set n)
        \<and> create_batch_request w (glob_pdf w) lg0 = Some (Inr requests0, lg1) \<longrightarrow>
        distinct (map custom_id requests0))"
proof (intro conjI impI)
  show "custom_id (build_request pdf_path file_uri) = Some (JStr (basename pdf_path))"
    by (rule custom_id_build_request)
next
  assume "create_batch_request w pdf_files lg = Some (Inr requests, lg')"
  then have "create_batch_loop w (length pdf_files) 0 pdf_files [] lg = Some (Inr requests, lg')"
    by (simp add: create_batch_request_def)
  from create_batch_loop_results [OF this]
  have "requests = records_of (upload_results w (length pdf_files) 0 pdf_files lg)" by simp
  then show "map custom_id requests =
          map (\<lambda>(p, r). Some (JStr (basename p)))
            (filter (\<lambda>(p, r). truthy r) (upload_results w (length pdf_files) 0 pdf_files lg))"
    by (simp add: custom_ids_of_records)
next
  let ?results = "upload_results w (length (glob_pdf w)) 0 (glob_pdf w) lg0"
  assume a: "distinct (scandir w PDF_DIR) \<and> (\<forall>n \<in> set (scandir w PDF_DIR). CHR ''/'' \<notin> set n)
        \<and> create_batch_request w (glob_pdf w) lg0 = Some (Inr requests0, lg1)"
  then have "create_batch_loop w (length (glob_pdf w)) 0 (glob_pdf w) [] lg0 = Some (Inr requests0, lg1)"
    by (simp add: create_batch_request_def)
  from create_batch_loop_results [OF this]
  have f: "map fst ?results = glob_pdf w" and r: "requests0 = records_of ?results" by simp_all
  from a have "distinct (map basename (glob_pdf w))"
    by (simp add: glob_basenames)
  with f have "distinct (map basename (map fst ?results))" by simp
  with r show "distinct (map custom_id requests0)" by (simp add: custom_ids_distinct)
qed

theorem custom_id_is_the_basename_and_unique_witness:
  "create_batch_request demo_world (glob_pdf demo_world) [] =
     Some (Inr [build_request ''pdfs/a.pdf'' ''https://f/a'',
                build_request ''pdfs/b_MEMO.pdf'' ''https://f/b''], demo_uploads)
   \<and> scandir demo_world PDF_DIR = [''a.pdf'', ''b_MEMO.pdf'', ''c.pdf'', ''notes.txt'']
   \<and> distinct (scandir demo_world PDF_DIR)
   \<and> map custom_id [build_request ''pdfs/a.pdf'' ''https://f/a'',
                     build_request ''pdfs/b_MEMO.pdf'' ''https://f/b'']
       = [Some (JStr ''a.pdf''), Some (JStr ''b_MEMO.pdf'')]
   \<and> distinct (map custom_id [build_request ''pdfs/a.pdf'' ''https://f/a'',
                               build_request ''pdfs/b_MEMO.pdf'' ''https://f/b''])"
proof -
  have r: "create_batch_request demo_world (glob_pdf demo_world) [] =
     Some (Inr [build_request ''pdfs/a.pdf'' ''https://f/a'',
                build_request ''pdfs/b_MEMO.pdf'' ''https://f/b''], demo_uploads)"
    using demo_run [of "[]"] by simp
  have d: "distinct (scandir demo_world PDF_DIR)"
    and s: "\<forall>n \<in> set (scandir demo_world PDF_DIR). CHR ''/'' \<notin> set n"
    by (simp_all add: demo_world_def PDF_DIR_def)
  have u: "upload_results demo_world (length (glob_pdf demo_world)) 0 (glob_pdf demo_world) []
           = [(''pdfs/a.pdf'', Some ''https://f/a''), (''pdfs/b_MEMO.pdf'', Some ''https://f/b''),
              (''pdfs/c.pdf'', None)]"
  proof -
    have l: "length (glob_pdf demo_world) = 3" by (simp add: demo_glob)
    show ?thesis unfolding l by (rule demo_results) simp
  qed
  note t = custom_id_is_the_basename_and_unique
    [of "''pdfs/a.pdf''" "''https://f/a''" demo_world "glob_pdf demo_world" "[]"
        "[build_request ''pdfs/a.pdf'' ''https://f/a'', build_request ''pdfs/b_MEMO.pdf'' ''https://f/b'']"
        demo_uploads "[]"
        "[build_request ''pdfs/a.pdf'' ''https://f/a'', build_request ''pdfs/b_MEMO.pdf'' ''https://f/b'']"
        demo_uploads]
  from t r d s have
    a: "map custom_id [build_request ''pdfs/a.pdf'' ''https://f/a'',
                    build_request ''pdfs/b_MEMO.pdf'' ''https://f/b'']
     = map (\<lambda>(p, r). Some (JStr (basename p)))
         (filter (\<lambda>(p, r). truthy r)
            (upload_results demo_world (length (glob_pdf demo_world)) 0 (glob_pdf demo_world) []))"
    and b: "distinct (map custom_id [build_request ''pdfs/a.pdf'' ''https://f/a'',
                               build_request ''pdfs/b_MEMO.pdf'' ''https://f/b''])"
    by blast+
  from a u have e: "map custom_id [build_request ''pdfs/a.pdf'' ''https://f/a'',
                                   build_request ''pdfs/b_MEMO.pdf'' ''https://f/b'']
                    = [Some (JStr ''a.pdf''), Some (JStr ''b_MEMO.pdf'')]"
    by (simp add: basename_def)
  have sd: "scandir demo_world PDF_DIR = [''a.pdf'', ''b_MEMO.pdf'', ''c.pdf'', ''notes.txt'']"
    by (simp add: demo_world_def PDF_DIR_def)
  from r sd d e b show ?thesis by blast
qed

section \<open>An empty directory\<close>

text \<open>
  Claim C10. When the credential is present and the directory has no PDF file, the
  script writes an empty manifest (no line at all), prints a count of 0, and ends with
  exit status 0.
\<close>

theorem no_documents_empty_manifest:
  "truthy (api_key w) \<and> glob_pdf w = [] \<longrightarrow>
   prepare_batch_main w lg =
     Some (0, lg @
       [Configure (the (api_key w)),
        println (folder_mark @ '' Found 0 PDFs.''),
        WriteFile ''batch_requests.jsonl'' [],
        println ([CHR 0x0A] @ check_mark @ '' generated batch_requests.jsonl with 0 entries.''),
        println (''Run: '' @ [CHR 0x27] @ ''python submit_job.py'' @ [CHR 0x27]
                   @ '' (I will create this next) to finalize.'')])"
  by (simp add: prepare_batch_main_def create_batch_request_def jsonl_def str_nat.simps
      digit_char_def)

theorem no_documents_empty_manifest_witness:
  "truthy (api_key empty_world) \<and> glob_pdf empty_world = []
   \<and> prepare_batch_main empty_world [] =
     Some (0,
       [Configure ''KEY'',
        println (folder_mark @ '' Found 0 PDFs.''),
        WriteFile ''batch_requests.jsonl'' [],
        println ([CHR 0x0A] @ check_mark @ '' generated batch_requests.jsonl with 0 entries.''),
        println (''Run: '' @ [CHR 0x27] @ ''python submit_job.py'' @ [CHR 0x27]
                   @ '' (I will create this next) to finalize.'')])"
proof -
  have k: "truthy (api_key empty_world)" and k': "api_key empty_world = Some ''KEY''"
    by (simp_all add: empty_world_def demo_world_def)
  have g: "glob_pdf empty_world = []"
    by (simp add: glob_pdf_def empty_world_def)
  from no_documents_empty_manifest [of empty_world "[]"] k k' g show ?thesis by simp
qed

section \<open>A missing credential\<close>

text \<open>
  Claim C4, at a run without the credential. Neither script makes a network call: each
  prints one line and ends. The Manifest Builder ends with exit status 1. The Batch
  Submitter returns from \<^verbatim>\<open>submit_batch_curl\<close> and ends with exit status 0.
\<close>

theorem missing_credential_exit_status:
  "prepare_batch_main nokey_world [] =
     Some (1, [println (cross_mark @ '' Error: GEMINI_API_KEY environment variable not set.'')])
   \<and> submit_job_main nokey_world [] = Some (0, [println (cross_mark @ '' API Key missing'')])
   \<and> \<not> is_network_call (println (cross_mark @ '' Error: GEMINI_API_KEY environment variable not set.''))
   \<and> \<not> is_network_call (println (cross_mark @ '' API Key missing''))"
  by (simp add: prepare_batch_main_def submit_job_main_def submit_batch_curl_def nokey_world_def
      demo_world_def println_def)

section \<open>The attribute access that always raises\<close>

lemma submit_try_outcome:
  "submit_try w key fsize lg =
     (case subprocess_run w lg (upload_cmd key fsize) of
        Inl e \<Rightarrow> Some (Inl e, lg @ [Run (upload_cmd key fsize)])
      | Inr res \<Rightarrow>
          Some (Inl (Exn ''AttributeError''
                  ([CHR 0x27] @ ''CompletedProcess'' @ [CHR 0x27] @ '' object has no attribute ''
                     @ [CHR 0x27] @ ''headers'' @ [CHR 0x27])),
                lg @ [Run (upload_cmd key fsize)]))"
  by (simp add: submit_try_def headers_def split: sum.splits)

lemma upload_cmd_not_curl_cmd: "upload_cmd key fsize \<noteq> curl_cmd key' batch_file"
  by (simp add: upload_cmd_def curl_cmd_def)




section \<open>The steps of the Batch Submitter that no run reaches\<close>

lemma submit_batch_curl_headers:
  assumes "truthy (api_key w)" and "getsize w JSONL_FILE = Inr fsize"
    and "subprocess_run w
           (lg @ [println (outbox_mark @ '' Uploading batch_requests.jsonl to Gemini File API...'')])
           (upload_cmd (the (api_key w)) fsize) = Inr res"
  shows "submit_job_main w lg =
           Some (0, lg @ [println (outbox_mark @ '' Uploading batch_requests.jsonl to Gemini File API...''),
                          Run (upload_cmd (the (api_key w)) fsize),
                          println (cross_mark @ '' Error: '' @ [CHR 0x27] @ ''CompletedProcess''
                             @ [CHR 0x27] @ '' object has no attribute '' @ [CHR 0x27] @ ''headers''
                             @ [CHR 0x27])])"
  using assms by (simp add: submit_job_main_def submit_batch_curl_def Let_def submit_try_outcome)

lemma poll_times_quiet [simp]:
  "poll_times t (Configure k # es) = poll_times t es"
  "poll_times t (println s # es) = poll_times t es"
  "poll_times t (UploadFile p m # es) = poll_times t es"
  "poll_times t (Run cmd # es) = poll_times t es"
  by (simp_all add: println_def)

lemma is_upload_println [simp]: "\<not> is_upload (println s)"
  by (simp add: println_def)

lemma is_run_println [simp]: "\<not> is_run (println s)"
  by (simp add: println_def)

text \<open>
  Claim C5, at a run with the credential, the manifest file present and a remote
  service that would keep the uploaded manifest \<^verbatim>\<open>PROCESSING\<close> for two requests and then
  report it \<^verbatim>\<open>FAILED\<close>. The run uploads nothing through the SDK, never sleeps and never
  asks for the state of a handle: after the first command \<^verbatim>\<open>res.headers\<close> raises, the
  handler prints the error and the process ends with status 0, reporting no failure of
  the manifest. The lines 41 to 53 that the run does not reach, started after the first
  command in the same world, would ask for the state at times 1 and 2 (not 2 and 4) and
  would print the \<^verbatim>\<open>FAILED\<close> manifest as ready and hand it on: unlike \<^verbatim>\<open>upload_file\<close> they
  have no test that the state is \<^verbatim>\<open>ACTIVE\<close>.
\<close>

theorem manifest_upload_never_polled:
  "submit_job_main demo_world [] =
     Some (0, [println (outbox_mark @ '' Uploading batch_requests.jsonl to Gemini File API...''),
               Run (upload_cmd ''KEY'' 120),
               println (cross_mark @ '' Error: '' @ [CHR 0x27] @ ''CompletedProcess''
                  @ [CHR 0x27] @ '' object has no attribute '' @ [CHR 0x27] @ ''headers''
                  @ [CHR 0x27])])
   \<and> filter is_upload
        [println (outbox_mark @ '' Uploading batch_requests.jsonl to Gemini File API...''),
         Run (upload_cmd ''KEY'' 120),
         println (cross_mark @ '' Error: '' @ [CHR 0x27] @ ''CompletedProcess''
            @ [CHR 0x27] @ '' object has no attribute '' @ [CHR 0x27] @ ''headers''
            @ [CHR 0x27])] = []
   \<and> poll_times 0
        [println (outbox_mark @ '' Uploading batch_requests.jsonl to Gemini File API...''),
         Run (upload_cmd ''KEY'' 120),
         println (cross_mark @ '' Error: '' @ [CHR 0x27] @ ''CompletedProcess''
            @ [CHR 0x27] @ '' object has no attribute '' @ [CHR 0x27] @ ''headers''
            @ [CHR 0x27])] = []
   \<and> uploadManifest demo_world ''KEY''
        [println (outbox_mark @ '' Uploading batch_requests.jsonl to Gemini File API...''),
         Run (upload_cmd ''KEY'' 120)] =
       Some (Inr \<lparr> name = ''files/m'', uri = ''https://f/m'', state = FAILED \<rparr>,
             [println (outbox_mark @ '' Uploading batch_requests.jsonl to Gemini File API...''),
              Run (upload_cmd ''KEY'' 120),
              Configure ''KEY'',
              println (outbox_mark @ '' Uploading JSONL via Python SDK...''),
              UploadFile ''batch_requests.jsonl'' None,
              Sleep 1, GetFile ''files/m'',
              Sleep 1, GetFile ''files/m'',
              println (check_mark @ '' Batch Input File Ready: https://f/m'')])
   \<and> poll_times 0
        [Configure ''KEY'',
         println (outbox_mark @ '' Uploading JSONL via Python SDK...''),
         UploadFile ''batch_requests.jsonl'' None,
         Sleep 1, GetFile ''files/m'',
         Sleep 1, GetFile ''files/m'',
         println (check_mark @ '' Batch Input File Ready: https://f/m'')] = [1, 2]"
proof -
  have k: "truthy (api_key demo_world)" and k': "the (api_key demo_world) = ''KEY''"
    and g: "getsize demo_world JSONL_FILE = Inr 120"
    by (simp_all add: demo_world_def)
  have s: "subprocess_run demo_world
             ([] @ [println (outbox_mark @ '' Uploading batch_requests.jsonl to Gemini File API...'')])
             (upload_cmd (the (api_key demo_world)) 120)
           = Inr \<lparr> args = upload_cmd ''KEY'' 120, returncode = 0, stdout = ''{}'', stderr = [] \<rparr>"
    by (simp add: demo_world_def)
  from submit_batch_curl_headers [OF k g s] k' have m: "submit_job_main demo_world [] =
     Some (0, [println (outbox_mark @ '' Uploading batch_requests.jsonl to Gemini File API...''),
               Run (upload_cmd ''KEY'' 120),
               println (cross_mark @ '' Error: '' @ [CHR 0x27] @ ''CompletedProcess''
                  @ [CHR 0x27] @ '' object has no attribute '' @ [CHR 0x27] @ ''headers''
                  @ [CHR 0x27])])"
    by simp
  have b: "uploadManifest demo_world ''KEY''
        [println (outbox_mark @ '' Uploading batch_requests.jsonl to Gemini File API...''),
         Run (upload_cmd ''KEY'' 120)] =
       Some (Inr \<lparr> name = ''files/m'', uri = ''https://f/m'', state = FAILED \<rparr>,
             [println (outbox_mark @ '' Uploading batch_requests.jsonl to Gemini File API...''),
              Run (upload_cmd ''KEY'' 120),
              Configure ''KEY'',
              println (outbox_mark @ '' Uploading JSONL via Python SDK...''),
              UploadFile ''batch_requests.jsonl'' None,
              Sleep 1, GetFile ''files/m'',
              Sleep 1, GetFile ''files/m'',
              println (check_mark @ '' Batch Input File Ready: https://f/m'')])"
    by (simp add: uploadManifest_def upload_and_wait_def demo_world_def JSONL_FILE_def asked_def
        println_def wait_processing_returns [where k = "Suc (Suc 0)"])
  from m b show ?thesis by simp
qed

text \<open>
  Claim C6, at the same run. The only command the Batch Submitter runs is the first
  one, which opens an upload session and whose payload names the file, not a URI. No
  job-creation command is run, for any handle, so no payload that references the URI
  of the uploaded manifest is ever sent.
\<close>

theorem job_creation_payload_never_sent:
  "(\<exists>lg'. submit_batch_curl demo_world [] = Some (Inr (), lg')
      \<and> filter is_run lg' = [Run (upload_cmd ''KEY'' 120)]
      \<and> (\<forall>batch_file. Run (curl_cmd ''KEY'' batch_file) \<notin> set lg'))
   \<and> (\<forall>batch_file. payload batch_file \<notin> set (upload_cmd ''KEY'' 120))
   \<and> (\<forall>batch_file. payload batch_file \<in> set (curl_cmd ''KEY'' batch_file))"
proof -
  have "submit_batch_curl demo_world [] =
       Some (Inr (),
             [println (outbox_mark @ '' Uploading batch_requests.jsonl to Gemini File API...''),
              Run (upload_cmd ''KEY'' 120),
              println (cross_mark @ '' Error: '' @ [CHR 0x27] @ ''CompletedProcess''
                 @ [CHR 0x27] @ '' object has no attribute '' @ [CHR 0x27] @ ''headers''
                 @ [CHR 0x27])])"
    by (simp add: submit_batch_curl_def Let_def submit_try_outcome demo_world_def)
  moreover have "\<forall>batch_file. payload batch_file \<notin> set (upload_cmd ''KEY'' 120)"
    by (simp add: payload_def upload_cmd_def)
  moreover have "\<forall>batch_file. payload batch_file \<in> set (curl_cmd ''KEY'' batch_file)"
    by (simp add: curl_cmd_def)
  ultimately show ?thesis
    by (simp add: upload_cmd_not_curl_cmd [THEN not_sym] println_def)
qed

text \<open>
  Claim C7, at a run where every subprocess answers with a body that contains \<^verbatim>\<open>error\<close>,
  and at a run where every subprocess answers with a body that does not. The Batch
  Submitter prints the same three lines in both and ends with status 0: it reports the
  job creation neither as failed nor as created, and it does not print the response.
\<close>

theorem job_creation_never_reported:
  "submit_job_main error_world [] =
     Some (0, [println (outbox_mark @ '' Uploading batch_requests.jsonl to Gemini File API...''),
               Run (upload_cmd ''KEY'' 120),
               println (cross_mark @ '' Error: '' @ [CHR 0x27] @ ''CompletedProcess''
                  @ [CHR 0x27] @ '' object has no attribute '' @ [CHR 0x27] @ ''headers''
                  @ [CHR 0x27])])
   \<and> submit_job_main demo_world [] = submit_job_main error_world []
   \<and> (\<exists>res. subprocess_run error_world lg cmd = Inr res \<and> str_in ''error'' (stdout res))
   \<and> (\<exists>res. subprocess_run demo_world lg cmd = Inr res \<and> \<not> str_in ''error'' (stdout res))
   \<and> println (cross_mark @ '' Batch Creation Failed.'')
        \<notin> set [println (outbox_mark @ '' Uploading batch_requests.jsonl to Gemini File API...''),
                 Run (upload_cmd ''KEY'' 120),
                 println (cross_mark @ '' Error: '' @ [CHR 0x27] @ ''CompletedProcess''
                    @ [CHR 0x27] @ '' object has no attribute '' @ [CHR 0x27] @ ''headers''
                    @ [CHR 0x27])]
   \<and> println (check_mark @ '' Batch Job Created! Check response for ID.'')
        \<notin> set [println (outbox_mark @ '' Uploading batch_requests.jsonl to Gemini File API...''),
                 Run (upload_cmd ''KEY'' 120),
                 println (cross_mark @ '' Error: '' @ [CHR 0x27] @ ''CompletedProcess''
                    @ [CHR 0x27] @ '' object has no attribute '' @ [CHR 0x27] @ ''headers''
                    @ [CHR 0x27])]"
proof -
  have e: "submit_job_main error_world [] =
     Some (0, [println (outbox_mark @ '' Uploading batch_requests.jsonl to Gemini File API...''),
               Run (upload_cmd ''KEY'' 120),
               println (cross_mark @ '' Error: '' @ [CHR 0x27] @ ''CompletedProcess''
                  @ [CHR 0x27] @ '' object has no attribute '' @ [CHR 0x27] @ ''headers''
                  @ [CHR 0x27])])"
    by (simp add: submit_job_main_def submit_batch_curl_def Let_def submit_try_outcome
        error_world_def demo_world_def)
  have d: "submit_job_main demo_world [] =
     Some (0, [println (outbox_mark @ '' Uploading batch_requests.jsonl to Gemini File API...''),
               Run (upload_cmd ''KEY'' 120),
               println (cross_mark @ '' Error: '' @ [CHR 0x27] @ ''CompletedProcess''
                  @ [CHR 0x27] @ '' object has no attribute '' @ [CHR 0x27] @ ''headers''
                  @ [CHR 0x27])])"
    by (simp add: submit_job_main_def submit_batch_curl_def Let_def submit_try_outcome
        demo_world_def)
  have r: "\<exists>res. subprocess_run error_world lg cmd = Inr res \<and> str_in ''error'' (stdout res)"
    by (simp add: error_world_def demo_world_def)
  have r': "\<exists>res. subprocess_run demo_world lg cmd = Inr res \<and> \<not> str_in ''error'' (stdout res)"
    by (simp add: demo_world_def)
  have n: "println (cross_mark @ '' Batch Creation Failed.'')
        \<notin> set [println (outbox_mark @ '' Uploading batch_requests.jsonl to Gemini File API...''),
                 Run (upload_cmd ''KEY'' 120),
                 println (cross_mark @ '' Error: '' @ [CHR 0x27] @ ''CompletedProcess''
                    @ [CHR 0x27] @ '' object has no attribute '' @ [CHR 0x27] @ ''headers''
                    @ [CHR 0x27])]"
    by (simp add: println_def cross_mark_def outbox_mark_def)
  have n': "println (check_mark @ '' Batch Job Created! Check response for ID.'')
        \<notin> set [println (outbox_mark @ '' Uploading batch_requests.jsonl to Gemini File API...''),
                 Run (upload_cmd ''KEY'' 120),
                 println (cross_mark @ '' Error: '' @ [CHR 0x27] @ ''CompletedProcess''
                    @ [CHR 0x27] @ '' object has no attribute '' @ [CHR 0x27] @ ''headers''
                    @ [CHR 0x27])]"
    by (simp add: println_def cross_mark_def check_mark_def outbox_mark_def)
  from e d r r' n n' show ?thesis by simp
qed

end
